theory Spec2Isabelle
  imports Complex_Main "HOL-Library.AList" "HOL-Library.Char_ord" "HOL-Library.List_Lexorder"
begin

section \<open>Values and exceptions\<close>

text \<open>
  The generator of \<^verbatim>\<open>comfy_asset_generator.py\<close> moves JSON documents around: the
  workflow template, the programmatic workflow, the server's replies. A JSON object
  is a Python dict, which keeps the order of its keys, so it is an association list
  here; \<open>map_of\<close> reads it and \<open>AList.update\<close> writes it (an existing key keeps its
  place, a new key goes last, as in Python).
\<close>

datatype json =
    JNull
  | JBool bool
  | JInt int
  | JFloat real
  | JStr string
  | JArr "json list"
  | JObj "(string \<times> json) list"

text \<open>The exceptions the modelled code can raise.\<close>

datatype py_exc =
    KeyError string
  | TypeError
  | OSError
  | UnicodeDecodeError
  | FileExistsError
  | FileNotFoundError

type_synonym bytes = "nat list"

text \<open>Python's truth value of a decoded JSON document (\<^verbatim>\<open>if not workflow\<close>).\<close>

fun truthy :: "json \<Rightarrow> bool" where
  "truthy JNull = False"
| "truthy (JBool b) = b"
| "truthy (JInt i) = (i \<noteq> 0)"
| "truthy (JFloat r) = (r \<noteq> 0)"
| "truthy (JStr s) = (s \<noteq> [])"
| "truthy (JArr xs) = (xs \<noteq> [])"
| "truthy (JObj kvs) = (kvs \<noteq> [])"

text \<open>
  Truth value of an optional string argument (\<^verbatim>\<open>if not model\<close>,
  \<^verbatim>\<open>if asset_name\<close>, \<^verbatim>\<open>if not prompt_id\<close>): \<^verbatim>\<open>None\<close> and the empty string are
  both false.
\<close>

fun truthy_str :: "string option \<Rightarrow> bool" where
  "truthy_str None = False"
| "truthy_str (Some s) = (s \<noteq> [])"

text \<open>
  \<^verbatim>\<open>d[k]\<close> with a string key: a dict raises \<^verbatim>\<open>KeyError\<close> on a missing key; a
  list or a string wants an integer index and every other value is not
  subscriptable, both \<^verbatim>\<open>TypeError\<close>.
\<close>

fun getitem :: "json \<Rightarrow> string \<Rightarrow> py_exc + json" where
  "getitem (JObj kvs) k = (case map_of kvs k of None \<Rightarrow> Inl (KeyError k) | Some v \<Rightarrow> Inr v)"
| "getitem _ k = Inl TypeError"

text \<open>\<^verbatim>\<open>d[k] = v\<close> with a string key.\<close>

fun setitem :: "json \<Rightarrow> string \<Rightarrow> json \<Rightarrow> py_exc + json" where
  "setitem (JObj kvs) k v = Inr (JObj (AList.update k v kvs))"
| "setitem _ k v = Inl TypeError"

text \<open>
  \<^verbatim>\<open>workflow[node]["inputs"][field] = value\<close>. The source mutates the inner dict in
  place; a decoded JSON document shares no sub-objects, so the model rebuilds the
  path to the changed dict.
\<close>

definition set_input :: "json \<Rightarrow> string \<Rightarrow> string \<Rightarrow> json \<Rightarrow> py_exc + json" where
  "set_input workflow node field v =
     (case getitem workflow node of
        Inl e \<Rightarrow> Inl e
      | Inr n \<Rightarrow>
          (case getitem n ''inputs'' of
             Inl e \<Rightarrow> Inl e
           | Inr ins \<Rightarrow>
               (case setitem ins field v of
                  Inl e \<Rightarrow> Inl e
                | Inr ins' \<Rightarrow>
                    (case setitem n ''inputs'' ins' of
                       Inl e \<Rightarrow> Inl e
                     | Inr n' \<Rightarrow> setitem workflow node n'))))"

section \<open>The world outside the process\<close>

text \<open>
  Every call of the source that leaves the process is answered by the environment:
  the server's replies, the template file, the clock, the output directory. The
  replies are typed: a history record is a dict whose \<^verbatim>\<open>outputs\<close>, when present, maps
  node ids to dicts whose \<^verbatim>\<open>images\<close>, when present, is a list of dicts; a missing key
  is \<open>None\<close>.
\<close>

record image_info =
  filename :: "string option"
  subfolder :: "string option"

record node_output =
  images :: "image_info list option"

record history =
  outputs :: "(string \<times> node_output) list option"

datatype template_file =
    Missing
  | InvalidJSON
  | Unreadable
  | NotText
  | Document json

datatype dir_state =
    DirExists
  | DirAbsent
  | ParentAbsent
  | NotADirectory

record env =
  system_stats_ok :: bool
  object_info :: "string list option"
  template :: template_file
  time_ms :: int
  prompt_reply :: "json \<Rightarrow> string \<Rightarrow> string option"
  history_reply :: "string \<Rightarrow> nat \<Rightarrow> history option"
  poll_ms :: "nat \<Rightarrow> nat"
  oversleep_ms :: "nat \<Rightarrow> nat"
  view_reply :: "string \<Rightarrow> string \<Rightarrow> bytes option"
  open_fails :: "string \<Rightarrow> string \<Rightarrow> bool"
  output_dir_state :: dir_state
  uuid4 :: string
  int_non_ascii :: "string \<Rightarrow> int option"
  int_max_str_digits :: nat

text \<open>
  What the process does to the outside, in order. \<open>MkDir\<close> and \<open>WriteFile\<close> change the
  local file system, \<open>OpenTemplate\<close> reads it, \<open>Sleep\<close> waits, the others are requests
  to the server.
\<close>

datatype event =
    GetSystemStats
  | GetObjectInfo
  | OpenTemplate
  | PostPrompt json string
  | GetHistory string
  | Sleep
  | GetView string string
  | MkDir string
  | WriteFile string string bytes

fun is_fs_write :: "event \<Rightarrow> bool" where
  "is_fs_write (MkDir d) = True"
| "is_fs_write (WriteFile d n b) = True"
| "is_fs_write _ = False"

fun is_network :: "event \<Rightarrow> bool" where
  "is_network GetSystemStats = True"
| "is_network GetObjectInfo = True"
| "is_network (PostPrompt w c) = True"
| "is_network (GetHistory p) = True"
| "is_network (GetView f s) = True"
| "is_network _ = False"

section \<open>The client\<close>

record generator =
  host :: string
  port :: int
  base_url :: string
  client_id :: string
  output_dir :: string

text \<open>Decimal rendering of the port in the f-string of \<^verbatim>\<open>__init__\<close>.\<close>

definition digit_char :: "nat \<Rightarrow> char" where
  "digit_char d = ''0123456789'' ! d"

fun digits :: "nat \<Rightarrow> string" where
  "digits n = (if n < 10 then [digit_char n] else digits (n div 10) @ [digit_char (n mod 10)])"

definition str_int :: "int \<Rightarrow> string" where
  "str_int i = (if i < 0 then CHR ''-'' # digits (nat (- i)) else digits (nat i))"

text \<open>
  \<^verbatim>\<open>__init__\<close>: the fields are set and \<^verbatim>\<open>output_dir.mkdir(exist_ok=True)\<close> runs. An
  existing directory is left alone; a missing one is created; a missing parent
  (\<^verbatim>\<open>parents\<close> is not set) and a path that is not a directory raise.
\<close>

definition init :: "env \<Rightarrow> string \<Rightarrow> int \<Rightarrow> string \<Rightarrow> (py_exc + generator) \<times> event list" where
  "init e h p out =
     (let self = \<lparr> host = h, port = p, base_url = ''http://'' @ h @ '':'' @ str_int p,
                   client_id = uuid4 e, output_dir = out \<rparr>
      in case output_dir_state e of
           DirExists \<Rightarrow> (Inr self, [])
         | DirAbsent \<Rightarrow> (Inr self, [MkDir out])
         | ParentAbsent \<Rightarrow> (Inl FileNotFoundError, [])
         | NotADirectory \<Rightarrow> (Inl FileExistsError, []))"

definition is_server_running :: "env \<Rightarrow> bool \<times> event list" where
  "is_server_running e = (system_stats_ok e, [GetSystemStats])"

text \<open>
  \<^verbatim>\<open>get_models\<close>: \<open>object_info e\<close> is the list found under
  \<^verbatim>\<open>CheckpointLoaderSimple.input.required.ckpt_name[0]\<close>, \<open>None\<close> when the request or the
  decoding raised. Python sorts strings by code point, which on UTF-8 bytes is the
  lexicographic order of the bytes.
\<close>

definition get_models :: "env \<Rightarrow> string list \<times> event list" where
  "get_models e =
     (case object_info e of
        None \<Rightarrow> ([], [GetObjectInfo])
      | Some checkpoints \<Rightarrow> ((if checkpoints \<noteq> [] then sort checkpoints else []), [GetObjectInfo]))"

text \<open>
  \<^verbatim>\<open>load_workflow_template\<close> catches \<^verbatim>\<open>FileNotFoundError\<close> and \<^verbatim>\<open>JSONDecodeError\<close>
  only; any other error of \<^verbatim>\<open>open\<close> (\<open>Unreadable\<close>), and a file that is not UTF-8
  text (\<open>NotText\<close>), leave the function as exceptions.
\<close>

definition load_workflow_template :: "env \<Rightarrow> (py_exc + json option) \<times> event list" where
  "load_workflow_template e =
     (case template e of
        Missing \<Rightarrow> (Inr None, [OpenTemplate])
      | InvalidJSON \<Rightarrow> (Inr None, [OpenTemplate])
      | Unreadable \<Rightarrow> (Inl OSError, [OpenTemplate])
      | NotText \<Rightarrow> (Inl UnicodeDecodeError, [OpenTemplate])
      | Document j \<Rightarrow> (Inr (Some j), [OpenTemplate]))"

section \<open>The workflow builder\<close>

text \<open>The dict literal returned by \<^verbatim>\<open>create_fallback_workflow\<close>.\<close>

definition fallback_graph ::
  "string \<Rightarrow> string \<Rightarrow> int \<Rightarrow> real \<Rightarrow> int \<Rightarrow> int \<Rightarrow> int \<Rightarrow> json" where
  "fallback_graph prompt model steps cfg width height seed =
     JObj [
       (''1'', JObj [(''class_type'', JStr ''CheckpointLoaderSimple''),
                     (''inputs'', JObj [(''ckpt_name'', JStr model)])]),
       (''2'', JObj [(''class_type'', JStr ''CLIPTextEncode''),
                     (''inputs'', JObj [(''clip'', JArr [JStr ''1'', JInt 1]),
                                        (''text'', JStr prompt)])]),
       (''3'', JObj [(''class_type'', JStr ''CLIPTextEncode''),
                     (''inputs'', JObj [(''clip'', JArr [JStr ''1'', JInt 1]),
                                        (''text'', JStr ''low quality, blurry, artifacts, bad anatomy'')])]),
       (''4'', JObj [(''class_type'', JStr ''EmptyLatentImage''),
                     (''inputs'', JObj [(''width'', JInt width),
                                        (''height'', JInt height),
                                        (''batch_size'', JInt 1)])]),
       (''5'', JObj [(''class_type'', JStr ''KSampler''),
                     (''inputs'', JObj [(''model'', JArr [JStr ''1'', JInt 0]),
                                        (''positive'', JArr [JStr ''2'', JInt 0]),
                                        (''negative'', JArr [JStr ''3'', JInt 0]),
                                        (''latent_image'', JArr [JStr ''4'', JInt 0]),
                                        (''seed'', JInt seed),
                                        (''steps'', JInt steps),
                                        (''cfg'', JFloat cfg),
                                        (''sampler_name'', JStr ''euler''),
                                        (''scheduler'', JStr ''normal''),
                                        (''denoise'', JFloat 1)])]),
       (''6'', JObj [(''class_type'', JStr ''VAEDecode''),
                     (''inputs'', JObj [(''samples'', JArr [JStr ''5'', JInt 0]),
                                        (''vae'', JArr [JStr ''1'', JInt 2])])]),
       (''7'', JObj [(''class_type'', JStr ''SaveImage''),
                     (''inputs'', JObj [(''filename_prefix'', JStr ''TetrisAsset''),
                                        (''images'', JArr [JStr ''6'', JInt 0])])])]"

text \<open>
  \<^verbatim>\<open>int(time.time() * 1000) % 2147483647\<close>; \<open>time_ms e\<close> is the integer the clock
  gives, and Python's \<^verbatim>\<open>%\<close> with a positive modulus is \<open>mod\<close>.
\<close>

definition pick_seed :: "env \<Rightarrow> int \<Rightarrow> int" where
  "pick_seed e seed = (if seed = - 1 then time_ms e mod 2147483647 else seed)"

text \<open>\<^verbatim>\<open>models[0] if models else "model.safetensors"\<close>.\<close>

fun first_model :: "string list \<Rightarrow> string" where
  "first_model [] = ''model.safetensors''"
| "first_model (m # ms) = m"

definition create_fallback_workflow ::
  "env \<Rightarrow> string \<Rightarrow> string option \<Rightarrow> int \<Rightarrow> real \<Rightarrow> int \<Rightarrow> int \<Rightarrow> int \<Rightarrow> json \<times> event list" where
  "create_fallback_workflow e prompt model steps cfg width height seed =
     (case (if truthy_str model then model else None) of
        None \<Rightarrow>
          (case get_models e of
             (models, tr) \<Rightarrow>
               (fallback_graph prompt (first_model models) steps cfg width height (pick_seed e seed), tr))
      | Some m \<Rightarrow>
          (fallback_graph prompt m steps cfg width height (pick_seed e seed), []))"

text \<open>
  \<^verbatim>\<open>create_workflow\<close>: the template when it loads and is truthy, six assignments
  into it in the source's order (the first one that raises ends the call), the model
  only when one is given.
\<close>

definition bind_exc :: "py_exc + 'a \<Rightarrow> ('a \<Rightarrow> py_exc + 'b) \<Rightarrow> py_exc + 'b" where
  "bind_exc r f = (case r of Inl e \<Rightarrow> Inl e | Inr a \<Rightarrow> f a)"

definition fill_template ::
  "env \<Rightarrow> json \<Rightarrow> string \<Rightarrow> string option \<Rightarrow> int \<Rightarrow> real \<Rightarrow> int \<Rightarrow> int \<Rightarrow> int \<Rightarrow> py_exc + json" where
  "fill_template e workflow prompt model steps cfg width height seed =
     bind_exc (set_input workflow ''47'' ''text'' (JStr prompt)) (\<lambda>w1.
     bind_exc (set_input w1 ''42'' ''noise_seed'' (JInt (pick_seed e seed))) (\<lambda>w2.
     bind_exc (set_input w2 ''45'' ''steps'' (JInt steps)) (\<lambda>w3.
     bind_exc (set_input w3 ''49'' ''guidance'' (JFloat cfg)) (\<lambda>w4.
     bind_exc (set_input w4 ''46'' ''width'' (JInt width)) (\<lambda>w5.
     bind_exc (set_input w5 ''46'' ''height'' (JInt height)) (\<lambda>w6.
       (case model of
          Some m \<Rightarrow> if m \<noteq> [] then set_input w6 ''4'' ''ckpt_name'' (JStr m) else Inr w6
        | None \<Rightarrow> Inr w6)))))))"

definition create_workflow ::
  "env \<Rightarrow> string \<Rightarrow> string option \<Rightarrow> int \<Rightarrow> real \<Rightarrow> int \<Rightarrow> int \<Rightarrow> int \<Rightarrow> (py_exc + json) \<times> event list" where
  "create_workflow e prompt model steps cfg width height seed =
     (case load_workflow_template e of
        (Inl exc, tr) \<Rightarrow> (Inl exc, tr)
      | (Inr None, tr) \<Rightarrow>
          (case create_fallback_workflow e prompt model steps cfg width height seed of
             (g, tr') \<Rightarrow> (Inr g, tr @ tr'))
      | (Inr (Some workflow), tr) \<Rightarrow>
          (if \<not> truthy workflow
           then (case create_fallback_workflow e prompt model steps cfg width height seed of
                   (g, tr') \<Rightarrow> (Inr g, tr @ tr'))
           else (fill_template e workflow prompt model steps cfg width height seed, tr)))"

section \<open>Submitting, polling, retrieving\<close>

definition queue_prompt :: "env \<Rightarrow> generator \<Rightarrow> json \<Rightarrow> string option \<times> event list" where
  "queue_prompt e self workflow =
     (prompt_reply e workflow (client_id self), [PostPrompt workflow (client_id self)])"

text \<open>
  \<^verbatim>\<open>get_history\<close>, at the \<open>k\<close>-th poll. The caller only tests the truth value of the
  reply, so \<open>None\<close> stands for every reply that is false in Python: a failed request,
  a reply without the id, an empty dict.
\<close>

definition get_history :: "env \<Rightarrow> string \<Rightarrow> nat \<Rightarrow> history option \<times> event list" where
  "get_history e prompt_id k = (history_reply e prompt_id k, [GetHistory prompt_id])"

definition download_image :: "env \<Rightarrow> string \<Rightarrow> string \<Rightarrow> bytes option \<times> event list" where
  "download_image e fname sub = (view_reply e fname sub, [GetView fname sub])"

text \<open>
  The extension \<^verbatim>\<open>os.path.splitext\<close> returns (POSIX): from the last dot of the last
  path component, unless only dots come before it in that component.
\<close>

definition splitext_ext :: "string \<Rightarrow> string" where
  "splitext_ext p =
     (let b = rev (takeWhile (\<lambda>c. c \<noteq> CHR ''/'') (rev p));
          tail = takeWhile (\<lambda>c. c \<noteq> CHR ''.'') (rev b)
      in if length tail < length b \<and>
            list_ex (\<lambda>c. c \<noteq> CHR ''.'') (take (length b - length tail - 1) b)
         then CHR ''.'' # rev tail
         else [])"

definition local_filename :: "string option \<Rightarrow> string \<Rightarrow> string" where
  "local_filename asset_name fname =
     (case asset_name of
        None \<Rightarrow> fname
      | Some a \<Rightarrow> if a \<noteq> [] then a @ splitext_ext fname else fname)"

text \<open>
  Every \<^verbatim>\<open>return None\<close> of \<^verbatim>\<open>generate_asset\<close> is told apart by the branch that
  takes it (each prints its own message): the server check, the submission, the end
  of the loops over the outputs, the \<^verbatim>\<open>except\<close> around them, and the timeout.
  \<open>Saved d n\<close> is the returned path of \<^verbatim>\<open>output_dir / local_filename\<close>, made
  absolute.
\<close>

datatype failure =
    ServerUnavailable
  | SubmitFailed
  | NoOutputProduced
  | ProcessingError py_exc
  | TimedOut

datatype result =
    Saved string string
  | Failed failure

text \<open>
  The three reads with a default: \<^verbatim>\<open>history.get("outputs", {})\<close>,
  \<^verbatim>\<open>node_output.get("images", [])\<close> and \<^verbatim>\<open>image_info.get("subfolder", "")\<close>.
\<close>

definition get_outputs :: "history \<Rightarrow> (string \<times> node_output) list" where
  "get_outputs h = (case outputs h of None \<Rightarrow> [] | Some os \<Rightarrow> os)"

definition get_images :: "node_output \<Rightarrow> image_info list" where
  "get_images out = (case images out of None \<Rightarrow> [] | Some is \<Rightarrow> is)"

definition get_subfolder :: "image_info \<Rightarrow> string" where
  "get_subfolder info = (case subfolder info of None \<Rightarrow> [] | Some s \<Rightarrow> s)"

text \<open>
  The loop over the images of one node. \<open>None\<close> as the first component: the loop
  ran to its end without returning. A failed or empty download prints and
  \<^verbatim>\<open>continue\<close>s with the next image; a missing \<^verbatim>\<open>filename\<close> key and a failing
  \<^verbatim>\<open>open\<close> raise into the \<^verbatim>\<open>except\<close> of the caller.
\<close>

fun try_images ::
  "env \<Rightarrow> generator \<Rightarrow> string option \<Rightarrow> image_info list \<Rightarrow> result option \<times> event list" where
  "try_images e self asset_name [] = (None, [])"
| "try_images e self asset_name (info # rest) =
     (case filename info of
        None \<Rightarrow> (Some (Failed (ProcessingError (KeyError ''filename''))), [])
      | Some fname \<Rightarrow>
          (case download_image e fname (get_subfolder info) of
             (image_data, tr) \<Rightarrow>
               (case (case image_data of None \<Rightarrow> [] | Some d \<Rightarrow> d) of
                  [] \<Rightarrow>
                    (case try_images e self asset_name rest of (r, tr') \<Rightarrow> (r, tr @ tr'))
                | b # bs \<Rightarrow>
                    (if open_fails e (output_dir self) (local_filename asset_name fname)
                     then (Some (Failed (ProcessingError OSError)), tr)
                     else (Some (Saved (output_dir self) (local_filename asset_name fname)),
                           tr @ [WriteFile (output_dir self) (local_filename asset_name fname) (b # bs)])))))"

fun try_nodes ::
  "env \<Rightarrow> generator \<Rightarrow> string option \<Rightarrow> (string \<times> node_output) list \<Rightarrow> result option \<times> event list" where
  "try_nodes e self asset_name [] = (None, [])"
| "try_nodes e self asset_name ((node_id, out) # rest) =
     (case try_images e self asset_name (get_images out) of
        (Some r, tr) \<Rightarrow> (Some r, tr)
      | (None, tr) \<Rightarrow>
          (case try_nodes e self asset_name rest of (r, tr') \<Rightarrow> (r, tr @ tr')))"

definition process_history ::
  "env \<Rightarrow> generator \<Rightarrow> string option \<Rightarrow> history \<Rightarrow> result \<times> event list" where
  "process_history e self asset_name h =
     (case try_nodes e self asset_name (get_outputs h) of
        (Some r, tr) \<Rightarrow> (r, tr)
      | (None, tr) \<Rightarrow> (Failed NoOutputProduced, tr))"

text \<open>
  The \<^verbatim>\<open>while True\<close> loop. Clock readings are whole milliseconds since
  \<^verbatim>\<open>start_time\<close>; \<open>t\<close> is the reading when the \<open>k\<close>-th \<^verbatim>\<open>get_history\<close> starts, the
  call takes \<open>poll_ms e k\<close>, and \<^verbatim>\<open>time.sleep(1)\<close> takes one second and
  \<open>oversleep_ms e k\<close> more. \<^verbatim>\<open>elapsed\<close> is read before the sleep and tested after it.
\<close>

function poll :: "env \<Rightarrow> string \<Rightarrow> nat \<Rightarrow> nat \<Rightarrow> history option \<times> event list" where
  "poll e prompt_id k t =
     (case history_reply e prompt_id k of
        Some h \<Rightarrow> (Some h, [GetHistory prompt_id])
      | None \<Rightarrow>
          (if t + poll_ms e k > 120000
           then (None, [GetHistory prompt_id, Sleep])
           else (case poll e prompt_id (Suc k) (t + poll_ms e k + 1000 + oversleep_ms e k) of
                   (r, tr) \<Rightarrow> (r, GetHistory prompt_id # Sleep # tr))))"
  by pat_completeness auto
termination
  by (relation "measure (\<lambda>(e, prompt_id, k, t). 121001 - t)") auto

text \<open>
  \<^verbatim>\<open>"66" in workflow\<close>: key membership for a dict, element membership for a list,
  substring for a string, \<^verbatim>\<open>TypeError\<close> otherwise.
\<close>

fun is_substring :: "string \<Rightarrow> string \<Rightarrow> bool" where
  "is_substring k [] = (k = [])"
| "is_substring k (c # cs) = (take (length k) (c # cs) = k \<or> is_substring k cs)"

fun contains :: "json \<Rightarrow> string \<Rightarrow> py_exc + bool" where
  "contains (JObj kvs) k = Inr (map_of kvs k \<noteq> None)"
| "contains (JArr xs) k = Inr (List.member xs (JStr k))"
| "contains (JStr s) k = Inr (is_substring k s)"
| "contains _ k = Inl TypeError"

text \<open>Lines 213-214: the asset name goes into node 66, when there is one.\<close>

definition set_asset_name :: "string option \<Rightarrow> json \<Rightarrow> py_exc + json" where
  "set_asset_name asset_name workflow =
     (case (if truthy_str asset_name then asset_name else None) of
        None \<Rightarrow> Inr workflow
      | Some a \<Rightarrow>
          bind_exc (contains workflow ''66'') (\<lambda>found.
            if found then set_input workflow ''66'' ''filename_prefix'' (JStr a)
            else Inr workflow))"

definition generate_asset ::
  "env \<Rightarrow> generator \<Rightarrow> string \<Rightarrow> string option \<Rightarrow> string option \<Rightarrow> int \<Rightarrow> real \<Rightarrow> int \<Rightarrow> int \<Rightarrow> int
     \<Rightarrow> (py_exc + result) \<times> event list" where
  "generate_asset e self prompt asset_name model steps cfg width height seed =
     (case is_server_running e of
        (False, tr0) \<Rightarrow> (Inr (Failed ServerUnavailable), tr0)
      | (True, tr0) \<Rightarrow>
          (case create_workflow e prompt model steps cfg width height seed of
             (Inl exc, tr1) \<Rightarrow> (Inl exc, tr0 @ tr1)
           | (Inr workflow, tr1) \<Rightarrow>
               (case set_asset_name asset_name workflow of
                  Inl exc \<Rightarrow> (Inl exc, tr0 @ tr1)
                | Inr workflow' \<Rightarrow>
                    (case queue_prompt e self workflow' of
                       (reply, tr2) \<Rightarrow>
                         (case (if truthy_str reply then reply else None) of
                            None \<Rightarrow> (Inr (Failed SubmitFailed), tr0 @ tr1 @ tr2)
                          | Some prompt_id \<Rightarrow>
                              (case poll e prompt_id 0 0 of
                                 (None, tr3) \<Rightarrow> (Inr (Failed TimedOut), tr0 @ tr1 @ tr2 @ tr3)
                               | (Some h, tr3) \<Rightarrow>
                                   (case process_history e self asset_name h of
                                      (r, tr4) \<Rightarrow> (Inr r, tr0 @ tr1 @ tr2 @ tr3 @ tr4))))))))"

section \<open>The command line\<close>

text \<open>\<^verbatim>\<open>str.split('x')\<close>: the pieces between the separators, empty pieces kept.\<close>

fun split_on :: "char \<Rightarrow> string \<Rightarrow> string list" where
  "split_on sep [] = [[]]"
| "split_on sep (c # cs) =
     (if c = sep then [] # split_on sep cs
      else (case split_on sep cs of
              [] \<Rightarrow> [[c]]
            | piece # pieces \<Rightarrow> (c # piece) # pieces))"

text \<open>
  \<^verbatim>\<open>int(s)\<close>. A string is the list of its UTF-8 bytes. On an ASCII string: the white
  space around the number is dropped (tab, line feed, vertical tab, form feed, carriage
  return, space), one sign may come first, then decimal digits, where a single
  underscore may stand between two digits. Anything else is \<^verbatim>\<open>ValueError\<close>, here
  \<open>None\<close>. On a string with a character outside ASCII (other decimal digits and other
  white space of Unicode are accepted by \<^verbatim>\<open>int\<close>) the result is the environment's
  \<open>int_non_ascii\<close>: the builtin is not part of the program. The interpreter may
  limit the number of digits it converts (\<^verbatim>\<open>sys.get_int_max_str_digits()\<close>, 4300 by
  default since Python 3.11, 0 for no limit and in older interpreters): more than 640
  digits and more than a non-zero limit is \<^verbatim>\<open>ValueError\<close> too.
\<close>

definition is_ascii :: "char \<Rightarrow> bool" where
  "is_ascii c = ((of_char c :: nat) < 128)"

definition is_space :: "char \<Rightarrow> bool" where
  "is_space c = (of_char c \<in> {9, 10, 11, 12, 13, 32 :: nat})"

definition is_digit :: "char \<Rightarrow> bool" where
  "is_digit c = (48 \<le> (of_char c :: nat) \<and> (of_char c :: nat) \<le> 57)"

definition strip :: "string \<Rightarrow> string" where
  "strip s = rev (dropWhile is_space (rev (dropWhile is_space s)))"

fun parse_digits :: "string \<Rightarrow> nat \<Rightarrow> nat option" where
  "parse_digits [] acc = Some acc"
| "parse_digits (c # cs) acc =
     (if is_digit c then parse_digits cs (10 * acc + (of_char c - 48))
      else if c = CHR ''_'' then
        (case cs of
           [] \<Rightarrow> None
         | d # ds \<Rightarrow> if is_digit d then parse_digits cs acc else None)
      else None)"

definition too_many_digits :: "env \<Rightarrow> string \<Rightarrow> bool" where
  "too_many_digits e s =
     (640 < length (filter is_digit s) \<and> 0 < int_max_str_digits e \<and>
      int_max_str_digits e < length (filter is_digit s))"

definition parse_unsigned :: "env \<Rightarrow> string \<Rightarrow> nat option" where
  "parse_unsigned e s =
     (case s of
        [] \<Rightarrow> None
      | d # ds \<Rightarrow>
          if is_digit d \<and> \<not> too_many_digits e s then parse_digits s 0 else None)"

definition py_int_ascii :: "env \<Rightarrow> string \<Rightarrow> int option" where
  "py_int_ascii e s =
     (case strip s of
        [] \<Rightarrow> None
      | c # cs \<Rightarrow>
          if c = CHR ''-'' then map_option (\<lambda>n. - int n) (parse_unsigned e cs)
          else if c = CHR ''+'' then map_option int (parse_unsigned e cs)
          else map_option int (parse_unsigned e (c # cs)))"

definition py_int :: "env \<Rightarrow> string \<Rightarrow> int option" where
  "py_int e s = (if list_all is_ascii s then py_int_ascii e s else int_non_ascii e s)"

text \<open>
  \<^verbatim>\<open>width, height = map(int, args.size.split('x'))\<close> under the bare \<^verbatim>\<open>except\<close>:
  any piece that is not an integer, and any number of pieces other than two, end in
  the handler. No byte of a character outside ASCII is the byte of \<^verbatim>\<open>x\<close>, so
  splitting the bytes splits the characters.
\<close>

definition parse_size :: "env \<Rightarrow> string \<Rightarrow> (int \<times> int) option" where
  "parse_size e s =
     (case split_on CHR ''x'' s of
        [a, b] \<Rightarrow>
          (case py_int e a of
             None \<Rightarrow> None
           | Some w \<Rightarrow> (case py_int e b of None \<Rightarrow> None | Some h \<Rightarrow> Some (w, h)))
      | _ \<Rightarrow> None)"

record args =
  arg_prompt :: string
  arg_name :: "string option"
  arg_model :: "string option"
  arg_steps :: int
  arg_cfg :: real
  arg_size :: string
  arg_seed :: int
  arg_output :: string
  arg_host :: string
  arg_port :: int

text \<open>
  How the process ends: \<^verbatim>\<open>main\<close> returns (exit code 0), calls \<^verbatim>\<open>sys.exit(1)\<close>, or
  an exception leaves it (a traceback and exit code 1).
\<close>

datatype process_end =
    Returned
  | SysExit int
  | Uncaught py_exc

fun exit_code :: "process_end \<Rightarrow> int" where
  "exit_code Returned = 0"
| "exit_code (SysExit n) = n"
| "exit_code (Uncaught exc) = 1"

definition main :: "env \<Rightarrow> args \<Rightarrow> process_end \<times> event list" where
  "main e a =
     (case parse_size e (arg_size a) of
        None \<Rightarrow> (Returned, [])
      | Some (width, height) \<Rightarrow>
          (case init e (arg_host a) (arg_port a) (arg_output a) of
             (Inl exc, tr0) \<Rightarrow> (Uncaught exc, tr0)
           | (Inr g, tr0) \<Rightarrow>
               (case generate_asset e g (arg_prompt a) (arg_name a) (arg_model a) (arg_steps a)
                       (arg_cfg a) width height (arg_seed a) of
                  (Inl exc, tr1) \<Rightarrow> (Uncaught exc, tr0 @ tr1)
                | (Inr (Saved d n), tr1) \<Rightarrow> (Returned, tr0 @ tr1)
                | (Inr (Failed f), tr1) \<Rightarrow> (SysExit 1, tr0 @ tr1))))"

section \<open>Vocabulary of the statements\<close>

text \<open>
  The image references of a history record, in the order the two loops meet them:
  node after node, and within a node image after image.
\<close>

definition image_refs :: "history \<Rightarrow> image_info list" where
  "image_refs h = concat (map (\<lambda>(node_id, out). get_images out) (get_outputs h))"

definition all_images_empty :: "history \<Rightarrow> bool" where
  "all_images_empty h = list_all (\<lambda>(node_id, out). get_images out = []) (get_outputs h)"

text \<open>
  A reference whose download fails: it names a file, and the server gives nothing or
  no bytes for it. \<open>get_view\<close> is the request the loop body sends for a reference.
\<close>

definition download_fails :: "env \<Rightarrow> image_info \<Rightarrow> bool" where
  "download_fails e info =
     (case filename info of
        None \<Rightarrow> False
      | Some f \<Rightarrow> (case view_reply e f (get_subfolder info) of None \<Rightarrow> True | Some d \<Rightarrow> d = []))"

definition get_view :: "image_info \<Rightarrow> event" where
  "get_view info = GetView (case filename info of None \<Rightarrow> [] | Some f \<Rightarrow> f) (get_subfolder info)"

text \<open>
  What the loop body does with a reference whose download does not fail: the result
  it returns and what it does on the way.
\<close>

definition save_image :: "env \<Rightarrow> generator \<Rightarrow> string option \<Rightarrow> image_info \<Rightarrow> result \<times> event list" where
  "save_image e self asset_name info =
     (case filename info of
        None \<Rightarrow> (Failed (ProcessingError (KeyError ''filename'')), [])
      | Some f \<Rightarrow>
          if open_fails e (output_dir self) (local_filename asset_name f)
          then (Failed (ProcessingError OSError), [get_view info])
          else (Saved (output_dir self) (local_filename asset_name f),
                [get_view info,
                 WriteFile (output_dir self) (local_filename asset_name f)
                   (case view_reply e f (get_subfolder info) of None \<Rightarrow> [] | Some d \<Rightarrow> d)]))"

text \<open>
  The environments in which \<^verbatim>\<open>create_workflow\<close> takes the fallback path: the template
  is missing, is not JSON, or decodes to a value that is false in Python.
\<close>

definition uses_fallback :: "env \<Rightarrow> bool" where
  "uses_fallback e =
     (case template e of
        Missing \<Rightarrow> True
      | InvalidJSON \<Rightarrow> True
      | Unreadable \<Rightarrow> False
      | NotText \<Rightarrow> False
      | Document j \<Rightarrow> \<not> truthy j)"

text \<open>The graphs a run submits, and the filename prefix of the save node 7 of a graph.\<close>

fun submitted :: "event list \<Rightarrow> json list" where
  "submitted [] = []"
| "submitted (PostPrompt w c # tr) = w # submitted tr"
| "submitted (ev # tr) = submitted tr"

definition save_prefix :: "json \<Rightarrow> py_exc + json" where
  "save_prefix g =
     bind_exc (getitem g ''7'') (\<lambda>n.
     bind_exc (getitem n ''inputs'') (\<lambda>ins. getitem ins ''filename_prefix''))"

text \<open>
  The clock of a run whose history record never arrives: \<open>round_start e k\<close> is the
  reading, in milliseconds since \<^verbatim>\<open>start_time\<close>, when the \<open>k\<close>-th \<^verbatim>\<open>get_history\<close>
  starts, and \<open>elapsed_at e k\<close> is the value of \<^verbatim>\<open>elapsed\<close> the loop reads in that
  round, after the request and before the sleep.
\<close>

fun round_start :: "env \<Rightarrow> nat \<Rightarrow> nat" where
  "round_start e 0 = 0"
| "round_start e (Suc k) = round_start e k + poll_ms e k + 1000 + oversleep_ms e k"

definition elapsed_at :: "env \<Rightarrow> nat \<Rightarrow> nat" where
  "elapsed_at e k = round_start e k + poll_ms e k"


section \<open>Sample runs\<close>

text \<open>
  One environment and one client for the concrete runs below: the server answers, two
  checkpoints are installed, the template file is missing, the job is done at the third
  poll with one image.
\<close>

definition demo_history :: history where
  "demo_history =
     \<lparr> outputs = Some [(''7'', \<lparr> images = Some [\<lparr> filename = Some ''TetrisAsset_00001_.png'',
                                                  subfolder = Some [] \<rparr>] \<rparr>)] \<rparr>"

definition demo_env :: env where
  "demo_env =
     \<lparr> system_stats_ok = True,
       object_info = Some [''sdxl.safetensors'', ''flux1-dev.safetensors''],
       template = Missing,
       time_ms = 1700000000123,
       prompt_reply = (\<lambda>w c. Some ''abc123''),
       history_reply = (\<lambda>p k. if k < 2 then None else Some demo_history),
       poll_ms = (\<lambda>k. 20),
       oversleep_ms = (\<lambda>k. 1),
       view_reply = (\<lambda>f s. Some [137, 80, 78, 71]),
       open_fails = (\<lambda>d n. False),
       output_dir_state = DirAbsent,
       uuid4 = ''6f1c2d3e'',
       int_non_ascii = (\<lambda>s. None),
       int_max_str_digits = 4300 \<rparr>"

definition demo_gen :: generator where
  "demo_gen = \<lparr> host = ''127.0.0.1'', port = 8188, base_url = ''http://127.0.0.1:8188'',
                client_id = ''6f1c2d3e'', output_dir = ''./assets'' \<rparr>"

text \<open>The same server, with a job that never finishes.\<close>

definition never_env :: env where
  "never_env = demo_env\<lparr>history_reply := (\<lambda>p k. None)\<rparr>"

text \<open>
  A finished job with two images in one node, on a server that fails to deliver the
  first of them.
\<close>

definition two_image_history :: history where
  "two_image_history =
     \<lparr> outputs = Some [(''7'', \<lparr> images = Some [\<lparr> filename = Some ''a.png'', subfolder = Some [] \<rparr>,
                                                \<lparr> filename = Some ''b.png'', subfolder = Some [] \<rparr>] \<rparr>)] \<rparr>"

definition retry_env :: env where
  "retry_env =
     demo_env\<lparr> history_reply := (\<lambda>p k. Some two_image_history),
               view_reply := (\<lambda>f s. if f = ''a.png'' then None else Some [137, 80, 78, 71]) \<rparr>"

text \<open>A finished job whose nodes have no images: an empty list, and no list at all.\<close>

definition empty_history :: history where
  "empty_history = \<lparr> outputs = Some [(''7'', \<lparr> images = Some [] \<rparr>), (''9'', \<lparr> images = None \<rparr>)] \<rparr>"

definition empty_env :: env where
  "empty_env = demo_env\<lparr> history_reply := (\<lambda>p k. Some empty_history) \<rparr>"

text \<open>
  A template file that is a JSON object without the nodes the builder writes to, and
  the command line of the sample run.
\<close>

definition broken_template_env :: env where
  "broken_template_env = demo_env\<lparr> template := Document (JObj [(''1'', JObj [])]) \<rparr>"

definition demo_args :: args where
  "demo_args =
     \<lparr> arg_prompt = ''a cat'', arg_name = Some ''cat'', arg_model = None, arg_steps = 20,
       arg_cfg = 7, arg_size = ''512x512'', arg_seed = 42, arg_output = ''./assets'',
       arg_host = ''127.0.0.1'', arg_port = 8188 \<rparr>"

section \<open>The model the fallback builder loads\<close>

lemma sort_eq_Nil: "(sort xs = []) = (xs = [])"
  by (metis length_sort length_0_conv)

lemma first_model_hd: "xs \<noteq> [] \<Longrightarrow> first_model xs = hd xs"
  by (cases xs) simp_all

text \<open>The first element of the sorted list is the least checkpoint name.\<close>

lemma hd_sort_Min:
  fixes xs :: "'a::linorder list"
  assumes ne: "xs \<noteq> []"
  shows "hd (sort xs) = Min (set xs)"
proof -
  from ne obtain y ys where ys: "sort xs = y # ys"
    by (cases "sort xs") (auto simp: sort_eq_Nil)
  have "sorted (sort xs)" by simp
  then have le: "\<forall>z\<in>set (sort xs). y \<le> z" unfolding ys by auto
  have "y \<in> set xs" using ys by (metis list.set_intros(1) set_sort)
  moreover have "\<forall>z\<in>set xs. y \<le> z" using le by simp
  ultimately have "Min (set xs) = y" by (intro Min_eqI) auto
  then show ?thesis using ys by simp
qed

lemma demo_models_sorted:
  "sort [''sdxl.safetensors'', ''flux1-dev.safetensors''] =
     [''flux1-dev.safetensors'', ''sdxl.safetensors'']"
  by code_simp

text \<open>
  Claim C1, as the source has it. With no model name given (\<^verbatim>\<open>None\<close> or the empty
  string) the fallback builder asks the server for its checkpoints and always returns
  a graph: when the list is non-empty its checkpoint loader gets the first name in
  sorted order, and when the list is empty, or could not be fetched, it gets the fixed
  name \<^verbatim>\<open>model.safetensors\<close>. The builder has no failing branch.
\<close>

theorem fallback_model_choice:
  assumes "\<not> truthy_str model"
  shows "create_fallback_workflow e prompt model steps cfg width height seed =
           (fallback_graph prompt
              (case object_info e of
                 None \<Rightarrow> ''model.safetensors''
               | Some cs \<Rightarrow> if cs = [] then ''model.safetensors'' else hd (sort cs))
              steps cfg width height (pick_seed e seed),
            [GetObjectInfo])"
proof (cases "object_info e")
  case None
  then show ?thesis using assms
    by (simp add: create_fallback_workflow_def get_models_def)
next
  case (Some cs)
  show ?thesis
  proof (cases "cs = []")
    case True
    then show ?thesis using assms Some
      by (simp add: create_fallback_workflow_def get_models_def)
  next
    case False
    then have "first_model (sort cs) = hd (sort cs)"
      by (simp add: first_model_hd sort_eq_Nil)
    then show ?thesis using assms Some False
      by (simp add: create_fallback_workflow_def get_models_def)
  qed
qed

theorem fallback_model_choice_witness:
  "\<not> truthy_str None \<and>
   create_fallback_workflow demo_env ''a cat'' None 20 7 512 512 42 =
     (fallback_graph ''a cat'' ''flux1-dev.safetensors'' 20 7 512 512 42, [GetObjectInfo])"
proof -
  have h: "\<not> truthy_str None" by simp
  from fallback_model_choice [OF h, of demo_env "''a cat''" 20 7 512 512 42]
  show ?thesis
    by (simp add: demo_env_def demo_models_sorted pick_seed_def)
qed

text \<open>
  Claim C1 as stated fails: with an empty checkpoint list the build step of a
  generation returns the fallback graph around the substitute name, and no error.
\<close>

theorem no_model_available_counterexample:
  "create_workflow (demo_env\<lparr>object_info := Some []\<rparr>) ''a cat'' None 20 7 512 512 42 =
     (Inr (fallback_graph ''a cat'' ''model.safetensors'' 20 7 512 512 42),
      [OpenTemplate, GetObjectInfo])"
  by (simp add: create_workflow_def load_workflow_template_def create_fallback_workflow_def
      get_models_def pick_seed_def demo_env_def)

section \<open>The fallback graph is a function of the request\<close>

text \<open>
  Claim C9. With a model name given and a seed other than \<open>-1\<close>, the fallback builder
  reads neither the server nor the clock: whatever the environment of the two calls,
  it returns the same graph, node for node, and makes no request.
\<close>

theorem fallback_deterministic:
  assumes "truthy_str model" and "seed \<noteq> - 1"
  shows "create_fallback_workflow e1 prompt model steps cfg width height seed =
         create_fallback_workflow e2 prompt model steps cfg width height seed \<and>
         snd (create_fallback_workflow e1 prompt model steps cfg width height seed) = []"
  using assms by (cases model) (simp_all add: create_fallback_workflow_def pick_seed_def)

theorem fallback_deterministic_witness:
  "truthy_str (Some ''sdxl.safetensors'') \<and> (42::int) \<noteq> - 1 \<and>
   create_fallback_workflow demo_env ''a cat'' (Some ''sdxl.safetensors'') 20 7 512 512 42 =
   create_fallback_workflow (demo_env\<lparr>time_ms := 5, object_info := None\<rparr>) ''a cat''
     (Some ''sdxl.safetensors'') 20 7 512 512 42"
proof -
  have h1: "truthy_str (Some ''sdxl.safetensors'')" by simp
  have h2: "(42::int) \<noteq> - 1" by simp
  from fallback_deterministic [OF h1 h2] h1 h2 show ?thesis by blast
qed

section \<open>A server that does not answer\<close>

text \<open>
  Claim C6. When the health check fails, \<^verbatim>\<open>generate_asset\<close> returns at once: the
  only thing it has done is the request to \<^verbatim>\<open>/system_stats\<close>; nothing is submitted,
  nothing is polled, nothing is written.
\<close>

theorem generate_asset_server_down:
  assumes "\<not> system_stats_ok e"
  shows "generate_asset e self prompt asset_name model steps cfg width height seed =
           (Inr (Failed ServerUnavailable), [GetSystemStats])"
  using assms by (simp add: generate_asset_def is_server_running_def)

theorem generate_asset_server_down_witness:
  "\<not> system_stats_ok (demo_env\<lparr>system_stats_ok := False\<rparr>) \<and>
   generate_asset (demo_env\<lparr>system_stats_ok := False\<rparr>) demo_gen ''a cat'' (Some ''cat'') None
     20 7 512 512 (- 1) = (Inr (Failed ServerUnavailable), [GetSystemStats])"
proof -
  have h: "\<not> system_stats_ok (demo_env\<lparr>system_stats_ok := False\<rparr>)" by simp
  from generate_asset_server_down [OF h] h show ?thesis by blast
qed

section \<open>What the builder and the poll loop do to the outside\<close>

declare poll.simps [simp del]

lemma poll_no_write: "filter is_fs_write (snd (poll e pid k t)) = []"
proof (induction e pid k t rule: poll.induct)
  case (1 e pid k t)
  show ?case
  proof (cases "history_reply e pid k")
    case None
    then show ?thesis using 1 by (subst poll.simps) (simp add: case_prod_beta)
  next
    case (Some h)
    then show ?thesis by (subst poll.simps) simp
  qed
qed

lemma create_fallback_events:
  "set (snd (create_fallback_workflow e prompt model steps cfg width height seed)) \<subseteq> {GetObjectInfo}"
  by (cases "object_info e")
     (auto simp: create_fallback_workflow_def get_models_def split: option.splits)

lemma create_workflow_events:
  "set (snd (create_workflow e prompt model steps cfg width height seed)) \<subseteq>
     {OpenTemplate, GetObjectInfo}"
  using create_fallback_events [of e prompt model steps cfg width height seed]
  by (cases "template e")
     (auto simp: create_workflow_def load_workflow_template_def split: prod.splits)

lemma filter_none: "(\<And>x. x \<in> set xs \<Longrightarrow> \<not> P x) \<Longrightarrow> filter P xs = []"
  by (induction xs) auto

lemma create_workflow_no_write:
  "filter is_fs_write (snd (create_workflow e prompt model steps cfg width height seed)) = []"
  using create_workflow_events [of e prompt model steps cfg width height seed]
  by (intro filter_none) auto

lemma create_workflow_no_poll:
  "filter (\<lambda>ev. ev = Sleep \<or> ev = GetHistory pid)
     (snd (create_workflow e prompt model steps cfg width height seed)) = []"
  using create_workflow_events [of e prompt model steps cfg width height seed]
  by (intro filter_none) auto

lemma filter_rounds:
  "filter (\<lambda>ev. ev = Sleep \<or> ev = GetHistory pid) (concat (replicate n [GetHistory pid, Sleep])) =
     concat (replicate n [GetHistory pid, Sleep])"
  by (induction n) simp_all

lemma rounds_no_write:
  "filter is_fs_write (concat (replicate n [GetHistory pid, Sleep])) = []"
  by (induction n) simp_all

text \<open>The fallback graph has no node 66, so the asset name never reaches it.\<close>

lemma fallback_has_no_66:
  "contains (fallback_graph prompt m steps cfg width height seed) ''66'' = Inr False"
  by (simp add: fallback_graph_def)

lemma set_asset_name_fallback:
  "set_asset_name a (fallback_graph prompt m steps cfg width height seed) =
     Inr (fallback_graph prompt m steps cfg width height seed)"
  by (cases a) (simp_all add: set_asset_name_def bind_exc_def fallback_has_no_66)

section \<open>A job that never finishes\<close>

text \<open>
  Every round takes at least a second, and a loop that never sees a record runs
  exactly up to the first round whose elapsed time is above 120 seconds.
\<close>

lemma round_start_lower: "1000 * k \<le> round_start e k"
  by (induction k) simp_all

lemma poll_rounds:
  assumes "\<forall>k. history_reply e pid k = None" and "t = round_start e k"
  shows "\<exists>n. 1 \<le> n \<and> fst (poll e pid k t) = None \<and>
              snd (poll e pid k t) = concat (replicate n [GetHistory pid, Sleep]) \<and>
              120000 < elapsed_at e (k + n - 1) \<and>
              (\<forall>j. k \<le> j \<and> j < k + n - 1 \<longrightarrow> elapsed_at e j \<le> 120000)"
  using assms
proof (induction e pid k t rule: poll.induct)
  case (1 e pid k t)
  have none: "history_reply e pid k = None" using "1.prems" by simp
  have el: "t + poll_ms e k = elapsed_at e k" using "1.prems" by (simp add: elapsed_at_def)
  show ?case
  proof (cases "t + poll_ms e k > 120000")
    case True
    have "poll e pid k t = (None, [GetHistory pid, Sleep])"
      using none True by (subst poll.simps) simp
    then show ?thesis using True el by (intro exI[of _ 1]) simp
  next
    case False
    let ?t' = "t + poll_ms e k + 1000 + oversleep_ms e k"
    have t': "?t' = round_start e (Suc k)" using "1.prems" by simp
    from "1.IH"[OF none False "1.prems"(1) t']
    obtain n where n: "1 \<le> n" "fst (poll e pid (Suc k) ?t') = None"
        "snd (poll e pid (Suc k) ?t') = concat (replicate n [GetHistory pid, Sleep])"
        "120000 < elapsed_at e (Suc k + n - 1)"
        "\<forall>j. Suc k \<le> j \<and> j < Suc k + n - 1 \<longrightarrow> elapsed_at e j \<le> 120000"
      by blast
    have eq: "poll e pid k t =
        (fst (poll e pid (Suc k) ?t'), GetHistory pid # Sleep # snd (poll e pid (Suc k) ?t'))"
      using none False by (subst poll.simps) (simp add: case_prod_beta)
    have last: "120000 < elapsed_at e (k + Suc n - 1)" using n(1,4) by simp
    have before: "\<forall>j. k \<le> j \<and> j < k + Suc n - 1 \<longrightarrow> elapsed_at e j \<le> 120000"
    proof (intro allI impI)
      fix j assume j: "k \<le> j \<and> j < k + Suc n - 1"
      show "elapsed_at e j \<le> 120000"
      proof (cases "j = k")
        case True
        then show ?thesis using False el by simp
      next
        case False
        then have "Suc k \<le> j \<and> j < Suc k + n - 1" using j n(1) by arith
        then show ?thesis using n(5) by blast
      qed
    qed
    show ?thesis
      using n(2,3) eq last before by (intro exI[of _ "Suc n"]) simp
  qed
qed

lemma rounds_at_most_122:
  assumes "\<forall>j. j < n - 1 \<longrightarrow> elapsed_at e j \<le> 120000"
  shows "n \<le> 122"
proof (rule ccontr)
  assume "\<not> n \<le> 122"
  then have "121 < n - 1" by arith
  then have "elapsed_at e 121 \<le> 120000" using assms by blast
  moreover have "1000 * 121 \<le> round_start e 121" by (rule round_start_lower)
  ultimately show False by (simp add: elapsed_at_def)
qed

text \<open>
  Claim C7. Take a run that gets as far as polling (the server answers, the workflow
  is built, the submission returns an id) and whose \<^verbatim>\<open>get_history\<close> never returns a
  record. The loop is a total function, so it ends; it ends in the timeout branch;
  nothing is written to the local file system. What it did is \<open>n\<close> rounds of one
  history request followed by one sleep of one second, and \<open>n\<close> is fixed by the clock:
  the elapsed time read in the last round is above 120 seconds, the elapsed time read
  in every earlier round is not, so the loop neither gives up before the ceiling nor
  goes on after it. Since every round takes a second or more, \<open>n\<close> is at most 122.
  Clock readings are whole milliseconds that never go backwards.
\<close>

theorem generate_asset_times_out:
  assumes up: "system_stats_ok e"
    and built: "fst (create_workflow e prompt model steps cfg width height seed) = Inr graph"
    and named: "set_asset_name asset_name graph = Inr graph'"
    and queued: "prompt_reply e graph' (client_id self) = Some pid" "pid \<noteq> []"
    and never: "\<forall>k. history_reply e pid k = None"
  shows "fst (generate_asset e self prompt asset_name model steps cfg width height seed) =
           Inr (Failed TimedOut) \<and>
         filter is_fs_write
           (snd (generate_asset e self prompt asset_name model steps cfg width height seed)) = [] \<and>
         (\<exists>n. 1 \<le> n \<and> n \<le> 122 \<and>
            120000 < elapsed_at e (n - 1) \<and>
            (\<forall>j. j < n - 1 \<longrightarrow> elapsed_at e j \<le> 120000) \<and>
            filter (\<lambda>ev. ev = Sleep \<or> ev = GetHistory pid)
              (snd (generate_asset e self prompt asset_name model steps cfg width height seed)) =
            concat (replicate n [GetHistory pid, Sleep]))"
proof -
  obtain tr1 where cw: "create_workflow e prompt model steps cfg width height seed = (Inr graph, tr1)"
    using built by (cases "create_workflow e prompt model steps cfg width height seed") simp
  have tr1: "filter is_fs_write tr1 = []"
    using create_workflow_no_write [of e prompt model steps cfg width height seed] cw by simp
  have start: "0 = round_start e 0" by simp
  from poll_rounds [OF never start]
  obtain n where n: "1 \<le> n" "fst (poll e pid 0 0) = None"
      "snd (poll e pid 0 0) = concat (replicate n [GetHistory pid, Sleep])"
      "120000 < elapsed_at e (n - 1)"
      "\<forall>j. j < n - 1 \<longrightarrow> elapsed_at e j \<le> 120000"
    by auto
  have n122: "n \<le> 122" using n(5) by (rule rounds_at_most_122)
  have pl: "poll e pid 0 0 = (None, concat (replicate n [GetHistory pid, Sleep]))"
    using n(2,3) by (cases "poll e pid 0 0") simp
  have ga: "generate_asset e self prompt asset_name model steps cfg width height seed =
      (Inr (Failed TimedOut),
       [GetSystemStats] @ tr1 @ [PostPrompt graph' (client_id self)] @
       concat (replicate n [GetHistory pid, Sleep]))"
    using up cw named queued pl
    by (simp add: generate_asset_def is_server_running_def queue_prompt_def)
  have np: "filter (\<lambda>ev. ev = Sleep \<or> ev = GetHistory pid) tr1 = []"
    using create_workflow_no_poll [of pid e prompt model steps cfg width height seed] cw by simp
  have f: "filter (\<lambda>ev. ev = Sleep \<or> ev = GetHistory pid)
              (snd (generate_asset e self prompt asset_name model steps cfg width height seed)) =
            concat (replicate n [GetHistory pid, Sleep])"
    using ga np by (simp add: filter_rounds)
  have w: "filter is_fs_write
           (snd (generate_asset e self prompt asset_name model steps cfg width height seed)) = []"
    using ga tr1 by (simp add: rounds_no_write)
  have r: "fst (generate_asset e self prompt asset_name model steps cfg width height seed) =
           Inr (Failed TimedOut)"
    using ga by simp
  from r w n(1) n122 n(4) n(5) f show ?thesis by blast
qed

text \<open>
  In the sample environment a request takes 20 ms and a sleep 1001 ms, so round \<open>k\<close>
  reads 1021 k + 20 ms: round 117 is the last below the ceiling, round 118 the first
  above it, and the loop makes 119 rounds.
\<close>

lemma never_env_round_start: "round_start never_env k = 1021 * k"
  by (induction k) (simp_all add: never_env_def demo_env_def)

lemma never_env_elapsed: "elapsed_at never_env k = 1021 * k + 20"
  by (simp add: elapsed_at_def never_env_round_start) (simp add: never_env_def demo_env_def)

theorem generate_asset_times_out_witness:
  "fst (generate_asset never_env demo_gen ''a cat'' (Some ''cat'') None 20 7 512 512 42) =
     Inr (Failed TimedOut) \<and>
   filter is_fs_write
     (snd (generate_asset never_env demo_gen ''a cat'' (Some ''cat'') None 20 7 512 512 42)) = [] \<and>
   filter (\<lambda>ev. ev = Sleep \<or> ev = GetHistory ''abc123'')
     (snd (generate_asset never_env demo_gen ''a cat'' (Some ''cat'') None 20 7 512 512 42)) =
     concat (replicate 119 [GetHistory ''abc123'', Sleep])"
proof -
  let ?g = "fallback_graph ''a cat'' ''flux1-dev.safetensors'' 20 7 512 512 42"
  let ?run = "generate_asset never_env demo_gen ''a cat'' (Some ''cat'') None 20 7 512 512 42"
  have up: "system_stats_ok never_env" by (simp add: never_env_def demo_env_def)
  have built: "fst (create_workflow never_env ''a cat'' None 20 7 512 512 42) = Inr ?g"
    by (simp add: create_workflow_def load_workflow_template_def create_fallback_workflow_def
        get_models_def pick_seed_def never_env_def demo_env_def demo_models_sorted)
  have named: "set_asset_name (Some ''cat'') ?g = Inr ?g" by (rule set_asset_name_fallback)
  have queued: "prompt_reply never_env ?g (client_id demo_gen) = Some ''abc123''"
    by (simp add: never_env_def demo_env_def)
  have ne: "''abc123'' \<noteq> []" by simp
  have never: "\<forall>k. history_reply never_env ''abc123'' k = None"
    by (simp add: never_env_def)
  from generate_asset_times_out [OF up built named queued ne never]
  obtain n where r: "fst ?run = Inr (Failed TimedOut)" "filter is_fs_write (snd ?run) = []"
    and n: "120000 < elapsed_at never_env (n - 1)"
      "\<forall>j. j < n - 1 \<longrightarrow> elapsed_at never_env j \<le> 120000"
      "filter (\<lambda>ev. ev = Sleep \<or> ev = GetHistory ''abc123'') (snd ?run) =
         concat (replicate n [GetHistory ''abc123'', Sleep])"
    by blast
  have lower: "118 \<le> n - 1" using n(1) by (simp add: never_env_elapsed)
  have "\<not> 118 < n - 1"
  proof
    assume "118 < n - 1"
    then have "elapsed_at never_env 118 \<le> 120000" using n(2) by blast
    then show False by (simp add: never_env_elapsed)
  qed
  then have "n = 119" using lower by arith
  then show ?thesis using r n(3) by simp
qed

section \<open>The loops over the outputs\<close>

text \<open>
  Both loops together walk the image references in order, skip every reference whose
  download fails, and stop at the first one that does not.
\<close>

lemma try_images_char:
  "try_images e self a imgs =
     (case dropWhile (download_fails e) imgs of
        [] \<Rightarrow> (None, map get_view imgs)
      | info # later \<Rightarrow>
          (Some (fst (save_image e self a info)),
           map get_view (takeWhile (download_fails e) imgs) @ snd (save_image e self a info)))"
proof (induction imgs)
  case Nil
  show ?case by simp
next
  case (Cons info rest)
  show ?case
  proof (cases "filename info")
    case None
    then show ?thesis by (simp add: download_fails_def save_image_def)
  next
    case (Some f)
    show ?thesis
    proof (cases "download_fails e info")
      case True
      then have "(case view_reply e f (get_subfolder info) of None \<Rightarrow> [] | Some d \<Rightarrow> d) = []"
        using Some by (auto simp: download_fails_def split: option.splits)
      then have step: "try_images e self a (info # rest) =
          (fst (try_images e self a rest), get_view info # snd (try_images e self a rest))"
        using Some by (simp add: download_image_def get_view_def case_prod_beta)
      show ?thesis unfolding step Cons.IH using True
        by (cases "dropWhile (download_fails e) rest") (simp_all del: dropWhile_eq_Nil_conv)
    next
      case False
      then obtain b bs where "view_reply e f (get_subfolder info) = Some (b # bs)"
        using Some by (cases "view_reply e f (get_subfolder info)")
          (auto simp: download_fails_def neq_Nil_conv)
      then show ?thesis using False Some
        by (simp add: download_image_def get_view_def save_image_def)
    qed
  qed
qed

lemma try_nodes_char:
  "try_nodes e self a nodes =
     (case dropWhile (download_fails e) (concat (map (\<lambda>(node_id, out). get_images out) nodes)) of
        [] \<Rightarrow> (None, map get_view (concat (map (\<lambda>(node_id, out). get_images out) nodes)))
      | info # later \<Rightarrow>
          (Some (fst (save_image e self a info)),
           map get_view (takeWhile (download_fails e)
                           (concat (map (\<lambda>(node_id, out). get_images out) nodes))) @
           snd (save_image e self a info)))"
proof (induction nodes)
  case Nil
  show ?case by simp
next
  case (Cons node rest)
  obtain node_id out where node: "node = (node_id, out)" by (cases node)
  let ?xs = "get_images out"
  let ?ys = "concat (map (\<lambda>(node_id, out). get_images out) rest)"
  show ?case
  proof (cases "dropWhile (download_fails e) ?xs")
    case Nil
    then have all: "\<And>x. x \<in> set ?xs \<Longrightarrow> download_fails e x"
      by (simp add: dropWhile_eq_Nil_conv)
    have d: "dropWhile (download_fails e) (?xs @ ?ys) = dropWhile (download_fails e) ?ys"
      using all by (rule dropWhile_append2)
    have t: "takeWhile (download_fails e) (?xs @ ?ys) = ?xs @ takeWhile (download_fails e) ?ys"
      using all by (rule takeWhile_append2)
    have "try_images e self a ?xs = (None, map get_view ?xs)"
      unfolding try_images_char Nil by simp
    then have step: "try_nodes e self a (node # rest) =
        (fst (try_nodes e self a rest), map get_view ?xs @ snd (try_nodes e self a rest))"
      using node by (simp add: case_prod_beta)
    show ?thesis unfolding step Cons.IH using node d t
      by (cases "dropWhile (download_fails e) ?ys") (simp_all del: dropWhile_eq_Nil_conv)
  next
    case (Cons info later)
    then have "info \<in> set (dropWhile (download_fails e) ?xs)" by simp
    then have mem: "info \<in> set ?xs" by (rule set_dropWhileD)
    have nf: "\<not> download_fails e info"
      using hd_dropWhile [of "download_fails e" ?xs] Cons by simp
    obtain x where x: "x \<in> set ?xs" "\<not> download_fails e x"
      using Cons by (metis dropWhile_eq_Nil_conv list.distinct(1))
    have d: "dropWhile (download_fails e) (?xs @ ?ys) = dropWhile (download_fails e) ?xs @ ?ys"
      using x by (rule dropWhile_append1)
    have t: "takeWhile (download_fails e) (?xs @ ?ys) = takeWhile (download_fails e) ?xs"
      using x by (rule takeWhile_append1)
    have "try_images e self a ?xs =
        (Some (fst (save_image e self a info)),
         map get_view (takeWhile (download_fails e) ?xs) @ snd (save_image e self a info))"
      unfolding try_images_char Cons by simp
    then show ?thesis using node d t Cons by (simp del: dropWhile_eq_Nil_conv)
  qed
qed

text \<open>
  Claim C2, as the source has it. In the completed state the retriever requests the
  images in order, nodes in mapping order and images in sequence order. A download
  that fails is skipped (\<^verbatim>\<open>continue\<close>) and the next image, of the same node or of a
  later one, is requested. The first image that downloads is the only one written and
  its path is the result. When every download fails, every image has been requested,
  nothing is written, and the result is the one of a record without images; there is
  no outcome of its own for a failed download.
\<close>

theorem process_history_first_success:
  "process_history e self asset_name h =
     (case dropWhile (download_fails e) (image_refs h) of
        [] \<Rightarrow> (Failed NoOutputProduced, map get_view (image_refs h))
      | info # later \<Rightarrow>
          (fst (save_image e self asset_name info),
           map get_view (takeWhile (download_fails e) (image_refs h)) @
           snd (save_image e self asset_name info)))"
  unfolding process_history_def try_nodes_char image_refs_def
  by (cases "dropWhile (download_fails e)
               (concat (map (\<lambda>(node_id, out). get_images out) (get_outputs h)))")
     (simp_all del: dropWhile_eq_Nil_conv)

theorem process_history_first_success_witness:
  "process_history retry_env demo_gen None two_image_history =
     (Saved ''./assets'' ''b.png'',
      [GetView ''a.png'' [], GetView ''b.png'' [],
       WriteFile ''./assets'' ''b.png'' [137, 80, 78, 71]])"
  using process_history_first_success [of retry_env demo_gen None two_image_history]
  by (simp add: image_refs_def get_outputs_def get_images_def get_subfolder_def
      download_fails_def get_view_def save_image_def local_filename_def
      two_image_history_def retry_env_def demo_env_def demo_gen_def)

text \<open>
  Claim C2 as stated fails: the download of the first image fails, and the
  invocation goes on to the second image of the node, writes it and succeeds.
\<close>

lemma retry_poll: "poll retry_env ''abc123'' 0 0 = (Some two_image_history, [GetHistory ''abc123''])"
  by (subst poll.simps) (simp add: retry_env_def)

theorem download_retry_counterexample:
  "generate_asset retry_env demo_gen ''a cat'' None None 20 7 512 512 42 =
     (Inr (Saved ''./assets'' ''b.png''),
      [GetSystemStats, OpenTemplate, GetObjectInfo,
       PostPrompt (fallback_graph ''a cat'' ''flux1-dev.safetensors'' 20 7 512 512 42) ''6f1c2d3e'',
       GetHistory ''abc123'',
       GetView ''a.png'' [], GetView ''b.png'' [],
       WriteFile ''./assets'' ''b.png'' [137, 80, 78, 71]])"
proof -
  have built: "create_workflow retry_env ''a cat'' None 20 7 512 512 42 =
      (Inr (fallback_graph ''a cat'' ''flux1-dev.safetensors'' 20 7 512 512 42),
       [OpenTemplate, GetObjectInfo])"
    by (simp add: create_workflow_def load_workflow_template_def create_fallback_workflow_def
        get_models_def pick_seed_def retry_env_def demo_env_def demo_models_sorted)
  have ph: "process_history retry_env demo_gen None two_image_history =
     (Saved ''./assets'' ''b.png'',
      [GetView ''a.png'' [], GetView ''b.png'' [],
       WriteFile ''./assets'' ''b.png'' [137, 80, 78, 71]])"
    by (simp add: process_history_def get_outputs_def get_images_def get_subfolder_def
        download_image_def local_filename_def two_image_history_def retry_env_def
        demo_env_def demo_gen_def)
  have q: "queue_prompt retry_env demo_gen
             (fallback_graph ''a cat'' ''flux1-dev.safetensors'' 20 7 512 512 42) =
           (Some ''abc123'',
            [PostPrompt (fallback_graph ''a cat'' ''flux1-dev.safetensors'' 20 7 512 512 42) ''6f1c2d3e''])"
    by (simp add: queue_prompt_def retry_env_def demo_env_def demo_gen_def)
  have up: "is_server_running retry_env = (True, [GetSystemStats])"
    by (simp add: is_server_running_def retry_env_def demo_env_def)
  show ?thesis
    unfolding generate_asset_def up built
    by (simp add: set_asset_name_def q retry_poll ph)
qed

section \<open>A finished job without images\<close>

lemma try_nodes_all_empty:
  "list_all (\<lambda>(node_id, out). get_images out = []) nodes \<Longrightarrow> try_nodes e self a nodes = (None, [])"
  by (induction nodes) auto

lemma process_history_all_empty:
  "all_images_empty h \<Longrightarrow> process_history e self a h = (Failed NoOutputProduced, [])"
  by (simp add: all_images_empty_def process_history_def try_nodes_all_empty)

text \<open>
  Claim C8. Take a run that gets as far as a history record (the server answers, the
  workflow is built, the submission returns an id, a poll returns the record). When
  every output node of the record has an empty image list, a missing \<^verbatim>\<open>images\<close> key
  counting as empty, the invocation ends in the branch after the loops, with no
  output, and nothing is written to the local file system.
\<close>

theorem generate_asset_no_images:
  assumes up: "system_stats_ok e"
    and built: "fst (create_workflow e prompt model steps cfg width height seed) = Inr graph"
    and named: "set_asset_name asset_name graph = Inr graph'"
    and queued: "prompt_reply e graph' (client_id self) = Some pid" "pid \<noteq> []"
    and ready: "fst (poll e pid 0 0) = Some h"
    and empty: "all_images_empty h"
  shows "fst (generate_asset e self prompt asset_name model steps cfg width height seed) =
           Inr (Failed NoOutputProduced) \<and>
         filter is_fs_write
           (snd (generate_asset e self prompt asset_name model steps cfg width height seed)) = []"
proof -
  obtain tr1 where cw: "create_workflow e prompt model steps cfg width height seed = (Inr graph, tr1)"
    using built by (cases "create_workflow e prompt model steps cfg width height seed") simp
  have tr1: "filter is_fs_write tr1 = []"
    using create_workflow_no_write [of e prompt model steps cfg width height seed] cw by simp
  obtain tr3 where pl: "poll e pid 0 0 = (Some h, tr3)"
    using ready by (cases "poll e pid 0 0") simp
  have tr3: "filter is_fs_write tr3 = []"
    using poll_no_write [of e pid 0 0] pl by simp
  have "generate_asset e self prompt asset_name model steps cfg width height seed =
      (Inr (Failed NoOutputProduced),
       [GetSystemStats] @ tr1 @ [PostPrompt graph' (client_id self)] @ tr3)"
    using up cw named queued pl process_history_all_empty [OF empty, of e self asset_name]
    by (simp add: generate_asset_def is_server_running_def queue_prompt_def)
  then show ?thesis using tr1 tr3 by simp
qed

theorem generate_asset_no_images_witness:
  "all_images_empty empty_history \<and>
   fst (generate_asset empty_env demo_gen ''a cat'' (Some ''cat'') None 20 7 512 512 42) =
     Inr (Failed NoOutputProduced) \<and>
   filter is_fs_write
     (snd (generate_asset empty_env demo_gen ''a cat'' (Some ''cat'') None 20 7 512 512 42)) = []"
proof -
  let ?g = "fallback_graph ''a cat'' ''flux1-dev.safetensors'' 20 7 512 512 42"
  have up: "system_stats_ok empty_env" by (simp add: empty_env_def demo_env_def)
  have built: "fst (create_workflow empty_env ''a cat'' None 20 7 512 512 42) = Inr ?g"
    by (simp add: create_workflow_def load_workflow_template_def create_fallback_workflow_def
        get_models_def pick_seed_def empty_env_def demo_env_def demo_models_sorted)
  have named: "set_asset_name (Some ''cat'') ?g = Inr ?g" by (rule set_asset_name_fallback)
  have queued: "prompt_reply empty_env ?g (client_id demo_gen) = Some ''abc123''"
    by (simp add: empty_env_def demo_env_def)
  have ne: "''abc123'' \<noteq> []" by simp
  have ready: "fst (poll empty_env ''abc123'' 0 0) = Some empty_history"
    by (subst poll.simps) (simp add: empty_env_def)
  have empty: "all_images_empty empty_history"
    by (simp add: all_images_empty_def empty_history_def get_outputs_def get_images_def)
  from generate_asset_no_images [OF up built named queued ne ready empty] empty
  show ?thesis by blast
qed

section \<open>What a client does to the local file system\<close>












text \<open>
  Without an asset name the local file name is the server's, whatever it is: here an
  absolute path.
\<close>

lemma server_name_is_kept:
  "process_history demo_env demo_gen None
     \<lparr> outputs = Some [(''7'', \<lparr> images = Some [\<lparr> filename = Some ''/tmp/outside.png'',
                                                  subfolder = None \<rparr>] \<rparr>)] \<rparr> =
     (Saved ''./assets'' ''/tmp/outside.png'',
      [GetView ''/tmp/outside.png'' [],
       WriteFile ''./assets'' ''/tmp/outside.png'' [137, 80, 78, 71]])"
  by (simp add: process_history_def get_outputs_def get_images_def get_subfolder_def
      download_image_def local_filename_def demo_env_def demo_gen_def)

text \<open>The sample run, step by step.\<close>

lemma demo_poll:
  "poll demo_env ''abc123'' 0 0 =
     (Some demo_history,
      [GetHistory ''abc123'', Sleep, GetHistory ''abc123'', Sleep, GetHistory ''abc123''])"
  by (simp add: poll.simps demo_env_def)

lemma demo_run:
  "generate_asset demo_env demo_gen ''a cat'' (Some ''cat'') None 20 7 512 512 42 =
     (Inr (Saved ''./assets'' ''cat.png''),
      [GetSystemStats, OpenTemplate, GetObjectInfo,
       PostPrompt (fallback_graph ''a cat'' ''flux1-dev.safetensors'' 20 7 512 512 42) ''6f1c2d3e'',
       GetHistory ''abc123'', Sleep, GetHistory ''abc123'', Sleep, GetHistory ''abc123'',
       GetView ''TetrisAsset_00001_.png'' [],
       WriteFile ''./assets'' ''cat.png'' [137, 80, 78, 71]])"
proof -
  have built: "create_workflow demo_env ''a cat'' None 20 7 512 512 42 =
      (Inr (fallback_graph ''a cat'' ''flux1-dev.safetensors'' 20 7 512 512 42),
       [OpenTemplate, GetObjectInfo])"
    by (simp add: create_workflow_def load_workflow_template_def create_fallback_workflow_def
        get_models_def pick_seed_def demo_env_def demo_models_sorted)
  have ext: "splitext_ext ''TetrisAsset_00001_.png'' = ''.png''"
    by (simp add: splitext_ext_def)
  have ph: "process_history demo_env demo_gen (Some ''cat'') demo_history =
     (Saved ''./assets'' ''cat.png'',
      [GetView ''TetrisAsset_00001_.png'' [],
       WriteFile ''./assets'' ''cat.png'' [137, 80, 78, 71]])"
    by (simp add: process_history_def get_outputs_def get_images_def get_subfolder_def
        download_image_def local_filename_def ext demo_history_def demo_env_def demo_gen_def)
  have q: "queue_prompt demo_env demo_gen
             (fallback_graph ''a cat'' ''flux1-dev.safetensors'' 20 7 512 512 42) =
           (Some ''abc123'',
            [PostPrompt (fallback_graph ''a cat'' ''flux1-dev.safetensors'' 20 7 512 512 42) ''6f1c2d3e''])"
    by (simp add: queue_prompt_def demo_env_def demo_gen_def)
  have up: "is_server_running demo_env = (True, [GetSystemStats])"
    by (simp add: is_server_running_def demo_env_def)
  show ?thesis
    unfolding generate_asset_def up built
    by (simp add: set_asset_name_fallback q demo_poll ph)
qed






section \<open>The asset name and the submitted graph\<close>

lemma submitted_append: "submitted (xs @ ys) = submitted xs @ submitted ys"
  by (induction xs rule: submitted.induct) simp_all

lemma submitted_get_view: "submitted (map get_view xs) = []"
  by (induction xs) (simp_all add: get_view_def)

lemma submitted_poll: "submitted (snd (poll e pid k t)) = []"
proof (induction e pid k t rule: poll.induct)
  case (1 e pid k t)
  show ?case
  proof (cases "history_reply e pid k")
    case None
    then show ?thesis using 1 by (subst poll.simps) (simp add: case_prod_beta)
  next
    case (Some h)
    then show ?thesis by (subst poll.simps) simp
  qed
qed

lemma submitted_fallback:
  "submitted (snd (create_fallback_workflow e prompt model steps cfg width height seed)) = []"
  by (cases "object_info e")
     (auto simp: create_fallback_workflow_def get_models_def split: option.splits)

lemma save_image_requests:
  "filter is_network (snd (save_image e self a info)) =
     (case filename info of None \<Rightarrow> [] | Some f \<Rightarrow> [get_view info]) \<and>
   submitted (snd (save_image e self a info)) = []"
  by (cases "filename info") (simp_all add: save_image_def get_view_def)

lemma process_history_requests:
  "filter is_network (snd (process_history e self a h)) =
   filter is_network (snd (process_history e self b h)) \<and>
   submitted (snd (process_history e self a h)) = []"
proof (cases "dropWhile (download_fails e)
               (concat (map (\<lambda>(node_id, out). get_images out) (get_outputs h)))")
  case Nil
  then show ?thesis
    unfolding process_history_def try_nodes_char
    by (simp del: dropWhile_eq_Nil_conv add: submitted_get_view)
next
  case (Cons info later)
  then show ?thesis
    unfolding process_history_def try_nodes_char
    by (simp del: dropWhile_eq_Nil_conv
        add: submitted_get_view submitted_append save_image_requests)
qed

lemma create_workflow_fallback:
  "uses_fallback e \<Longrightarrow>
   create_workflow e prompt model steps cfg width height seed =
     (Inr (fst (create_fallback_workflow e prompt model steps cfg width height seed)),
      OpenTemplate # snd (create_fallback_workflow e prompt model steps cfg width height seed))"
  by (cases "template e")
     (simp_all add: uses_fallback_def create_workflow_def load_workflow_template_def
        case_prod_beta)

lemma create_fallback_is_graph:
  "\<exists>m. fst (create_fallback_workflow e prompt model steps cfg width height seed) =
         fallback_graph prompt m steps cfg width height (pick_seed e seed)"
  by (cases model; cases "get_models e")
     (auto simp: create_fallback_workflow_def)

lemma save_prefix_fallback:
  "save_prefix (fallback_graph prompt m steps cfg width height seed) = Inr (JStr ''TetrisAsset'')"
  by (simp add: save_prefix_def fallback_graph_def bind_exc_def)

lemma set_asset_name_without_66:
  "contains workflow ''66'' = Inr False \<Longrightarrow> set_asset_name a workflow = Inr workflow"
  by (cases a) (simp_all add: set_asset_name_def bind_exc_def)


lemma generate_asset_fallback:
  assumes fb: "uses_fallback e"
  shows "submitted (snd (generate_asset e self prompt a1 model steps cfg width height seed)) = [] \<or>
         submitted (snd (generate_asset e self prompt a1 model steps cfg width height seed)) =
           [fst (create_fallback_workflow e prompt model steps cfg width height seed)]"
    and "filter is_network (snd (generate_asset e self prompt a1 model steps cfg width height seed)) =
         filter is_network (snd (generate_asset e self prompt a2 model steps cfg width height seed))"
proof -
  let ?g = "fst (create_fallback_workflow e prompt model steps cfg width height seed)"
  let ?trb = "snd (create_fallback_workflow e prompt model steps cfg width height seed)"
  have cw: "create_workflow e prompt model steps cfg width height seed = (Inr ?g, OpenTemplate # ?trb)"
    using fb by (rule create_workflow_fallback)
  obtain m where m: "?g = fallback_graph prompt m steps cfg width height (pick_seed e seed)"
    using create_fallback_is_graph by blast
  have named: "\<And>a. set_asset_name a ?g = Inr ?g"
    unfolding m by (rule set_asset_name_fallback)
  have sb: "submitted ?trb = []" by (rule submitted_fallback)
  have both: "(submitted (snd (generate_asset e self prompt a1 model steps cfg width height seed)) = [] \<or>
         submitted (snd (generate_asset e self prompt a1 model steps cfg width height seed)) = [?g]) \<and>
        filter is_network (snd (generate_asset e self prompt a1 model steps cfg width height seed)) =
         filter is_network (snd (generate_asset e self prompt a2 model steps cfg width height seed))"
  proof (cases "system_stats_ok e")
    case False
    then show ?thesis by (simp add: generate_asset_def is_server_running_def)
  next
    case up: True
    show ?thesis
    proof (cases "truthy_str (prompt_reply e ?g (client_id self))")
      case False
      then show ?thesis using up
        unfolding generate_asset_def cw
        by (simp add: is_server_running_def named queue_prompt_def submitted_append sb)
    next
      case True
      then obtain pid where pid: "prompt_reply e ?g (client_id self) = Some pid"
        by (cases "prompt_reply e ?g (client_id self)") auto
      obtain r3 tr3 where pl: "poll e pid 0 0 = (r3, tr3)" by (cases "poll e pid 0 0")
      have tr3: "submitted tr3 = []" using submitted_poll [of e pid 0 0] pl by simp
      show ?thesis
      proof (cases r3)
        case None
        then show ?thesis using up True pid pl tr3
          unfolding generate_asset_def cw
          by (simp add: is_server_running_def named queue_prompt_def submitted_append sb)
      next
        case (Some h)
        have ga: "\<And>a. generate_asset e self prompt a model steps cfg width height seed =
            (Inr (fst (process_history e self a h)),
             [GetSystemStats, OpenTemplate] @ ?trb @ [PostPrompt ?g (client_id self)] @ tr3 @
             snd (process_history e self a h))"
          using up True pid pl Some
          unfolding generate_asset_def cw
          by (simp add: is_server_running_def named queue_prompt_def case_prod_beta)
        show ?thesis
          unfolding ga
          using process_history_requests [where e = e and self = self and a = a1 and b = a2 and h = h]
          by (simp add: submitted_append sb tr3)
      qed
    qed
  qed
  from both show
    "submitted (snd (generate_asset e self prompt a1 model steps cfg width height seed)) = [] \<or>
     submitted (snd (generate_asset e self prompt a1 model steps cfg width height seed)) = [?g]"
    by blast
  from both show
    "filter is_network (snd (generate_asset e self prompt a1 model steps cfg width height seed)) =
     filter is_network (snd (generate_asset e self prompt a2 model steps cfg width height seed))"
    by blast
qed

text \<open>
  Claim C10. \<^verbatim>\<open>generate_asset\<close> writes the asset name into node 66 and leaves a graph
  without that node as it is. On the fallback path the built graph is the fallback
  graph, whose save node 7 carries the prefix \<^verbatim>\<open>TetrisAsset\<close>; it is the only graph
  the run submits, whatever the asset name; and two runs that differ in the asset name
  only send the same requests to the server. The asset name shows in the local file
  name and nowhere else.
\<close>

theorem asset_name_stays_local:
  assumes "uses_fallback e"
  shows "(contains workflow ''66'' = Inr False \<longrightarrow> set_asset_name asset_name workflow = Inr workflow) \<and>
         save_prefix (fst (create_fallback_workflow e prompt model steps cfg width height seed)) =
           Inr (JStr ''TetrisAsset'') \<and>
         set (submitted (snd (generate_asset e self prompt asset_name model steps cfg width height seed)))
           \<subseteq> {fst (create_fallback_workflow e prompt model steps cfg width height seed)} \<and>
         filter is_network
           (snd (generate_asset e self prompt asset_name model steps cfg width height seed)) =
         filter is_network
           (snd (generate_asset e self prompt other_name model steps cfg width height seed))"
proof -
  obtain m where m: "fst (create_fallback_workflow e prompt model steps cfg width height seed) =
      fallback_graph prompt m steps cfg width height (pick_seed e seed)"
    using create_fallback_is_graph by blast
  have p: "save_prefix (fst (create_fallback_workflow e prompt model steps cfg width height seed)) =
           Inr (JStr ''TetrisAsset'')"
    unfolding m by (rule save_prefix_fallback)
  have s: "set (submitted (snd (generate_asset e self prompt asset_name model steps cfg width height seed)))
           \<subseteq> {fst (create_fallback_workflow e prompt model steps cfg width height seed)}"
    using generate_asset_fallback(1) [OF assms, of self prompt asset_name model steps cfg width height seed]
    by auto
  show ?thesis
    using p s set_asset_name_without_66 [of workflow asset_name]
      generate_asset_fallback(2) [OF assms, of self prompt asset_name model steps cfg width height seed other_name]
    by blast
qed

theorem asset_name_stays_local_witness:
  "uses_fallback demo_env \<and>
   submitted (snd (generate_asset demo_env demo_gen ''a cat'' (Some ''cat'') None 20 7 512 512 42)) =
     [fallback_graph ''a cat'' ''flux1-dev.safetensors'' 20 7 512 512 42] \<and>
   save_prefix (fallback_graph ''a cat'' ''flux1-dev.safetensors'' 20 7 512 512 42) =
     Inr (JStr ''TetrisAsset'') \<and>
   filter is_network (snd (generate_asset demo_env demo_gen ''a cat'' (Some ''cat'') None 20 7 512 512 42)) =
   filter is_network (snd (generate_asset demo_env demo_gen ''a cat'' None None 20 7 512 512 42))"
proof -
  have fb: "uses_fallback demo_env" by (simp add: uses_fallback_def demo_env_def)
  have g: "fst (create_fallback_workflow demo_env ''a cat'' None 20 7 512 512 42) =
      fallback_graph ''a cat'' ''flux1-dev.safetensors'' 20 7 512 512 42"
    by (simp add: create_fallback_workflow_def get_models_def pick_seed_def demo_env_def
        demo_models_sorted)
  have sub: "submitted (snd (generate_asset demo_env demo_gen ''a cat'' (Some ''cat'') None 20 7 512 512 42)) =
     [fallback_graph ''a cat'' ''flux1-dev.safetensors'' 20 7 512 512 42]"
    by (simp add: demo_run)
  from asset_name_stays_local [OF fb, where prompt = "''a cat''" and model = None and steps = 20
      and cfg = 7 and width = 512 and height = 512 and seed = 42 and self = demo_gen
      and asset_name = "Some ''cat''" and other_name = None]
  show ?thesis using fb sub unfolding g by blast
qed

section \<open>A template without the expected nodes\<close>

text \<open>
  Claim C3 does not hold for a template that is a non-empty JSON object without node
  47. \<^verbatim>\<open>load_workflow_template\<close> returns it, it is true in Python, so no fallback is
  taken, and the first assignment \<^verbatim>\<open>workflow["47"]["inputs"]["text"] = prompt\<close> raises
  \<^verbatim>\<open>KeyError\<close>. Nothing in \<^verbatim>\<open>create_workflow\<close> or \<^verbatim>\<open>generate_asset\<close> catches it: the
  exception leaves the build step and the generation. A missing or undecodable
  template, by contrast, does reach the fallback (\<open>create_workflow_fallback\<close>).
\<close>

theorem create_workflow_missing_node:
  assumes "template e = Document (JObj kvs)" and "kvs \<noteq> []" and "map_of kvs ''47'' = None"
  shows "fst (create_workflow e prompt model steps cfg width height seed) = Inl (KeyError ''47'') \<and>
         (system_stats_ok e \<longrightarrow>
            fst (generate_asset e self prompt asset_name model steps cfg width height seed) =
              Inl (KeyError ''47''))"
proof -
  have cw: "create_workflow e prompt model steps cfg width height seed =
      (Inl (KeyError ''47''), [OpenTemplate])"
    using assms
    by (simp add: create_workflow_def load_workflow_template_def fill_template_def
        set_input_def bind_exc_def)
  then show ?thesis
    by (simp add: generate_asset_def is_server_running_def)
qed

theorem create_workflow_missing_node_witness:
  "fst (create_workflow broken_template_env ''a cat'' None 20 7 512 512 42) = Inl (KeyError ''47'') \<and>
   fst (generate_asset broken_template_env demo_gen ''a cat'' (Some ''cat'') None 20 7 512 512 42) =
     Inl (KeyError ''47'')"
proof -
  have t: "template broken_template_env = Document (JObj [(''1'', JObj [])])"
    by (simp add: broken_template_env_def)
  have ne: "[(''1'', JObj [])] \<noteq> []" by simp
  have m: "map_of [(''1'', JObj [])] ''47'' = None" by simp
  have up: "system_stats_ok broken_template_env"
    by (simp add: broken_template_env_def demo_env_def)
  from create_workflow_missing_node [OF t ne m] up show ?thesis by blast
qed

section \<open>A size that does not parse\<close>

lemma bad_size: "parse_size e ''abc'' = None"
  by (simp add: parse_size_def py_int_def py_int_ascii_def is_ascii_def strip_def is_space_def
      parse_unsigned_def is_digit_def)

lemma good_size: "parse_size e ''512x512'' = Some (512, 512)"
  by (simp add: parse_size_def py_int_def py_int_ascii_def is_ascii_def strip_def is_space_def
      parse_unsigned_def too_many_digits_def is_digit_def)

text \<open>
  Claim C4 does not hold for the exit code. When the size does not parse, \<^verbatim>\<open>main\<close>
  prints the message and returns before a client exists, so no request is made; but it
  returns normally, and the process ends with exit code 0. The other failure path of
  \<^verbatim>\<open>main\<close>, a generation that yields no path, does call \<^verbatim>\<open>sys.exit(1)\<close>
  (\<open>main_failure_exits_1\<close>).
\<close>

theorem main_bad_size_returns:
  assumes "parse_size e (arg_size a) = None"
  shows "main e a = (Returned, []) \<and> exit_code (fst (main e a)) = 0"
  using assms by (simp add: main_def)

theorem main_bad_size_returns_witness:
  "parse_size demo_env ''abc'' = None \<and>
   main demo_env (demo_args\<lparr>arg_size := ''abc''\<rparr>) = (Returned, []) \<and>
   exit_code (fst (main demo_env (demo_args\<lparr>arg_size := ''abc''\<rparr>))) = 0"
proof -
  have h: "parse_size demo_env (arg_size (demo_args\<lparr>arg_size := ''abc''\<rparr>)) = None"
    by (simp add: bad_size)
  from main_bad_size_returns [OF h] bad_size show ?thesis by blast
qed

lemma main_failure_exits_1:
  "main (demo_env\<lparr>system_stats_ok := False\<rparr>) demo_args = (SysExit 1, [MkDir ''./assets'', GetSystemStats])"
  by (simp add: main_def demo_args_def good_size init_def demo_env_def generate_asset_def
      is_server_running_def)

end
